theory Spec2Isabelle
  imports Complex_Main "HOL-Library.Word"
begin

section \<open>JavaScript values used by the DICOM image loader\<close>

text \<open>
  Exceptions are values. \<open>TypeError\<close> is what reading a property of \<open>undefined\<close>
  raises, \<open>RangeError\<close> what a typed-array constructor raises, and \<open>Error\<close> stands
  for every other exception (thrown by \<open>dicom-parser\<close>, by \<open>fetch\<close>, or by
  \<open>throw new Error(...)\<close>).
\<close>

datatype error = TypeError | RangeError | Error

text \<open>
  A numeric slot of the image object holds \<open>undefined\<close>, \<open>NaN\<close> or a number. Every
  number that occurs is an integer of at most 33 bits or half of one, so the double
  arithmetic of JavaScript is exact on it and a rational carries the same value.
\<close>

datatype jsnum = Undefined | NaN | Num rat

text \<open>The binary operators \<open>+\<close>, \<open>-\<close>, \<open>*\<close>, \<open>/\<close> on such slots: \<open>undefined\<close> converts to \<open>NaN\<close>.\<close>

fun js_add :: "jsnum \<Rightarrow> jsnum \<Rightarrow> jsnum" where
  "js_add (Num a) (Num b) = Num (a + b)"
| "js_add _ _ = NaN"

fun js_sub :: "jsnum \<Rightarrow> jsnum \<Rightarrow> jsnum" where
  "js_sub (Num a) (Num b) = Num (a - b)"
| "js_sub _ _ = NaN"

fun js_mul :: "jsnum \<Rightarrow> jsnum \<Rightarrow> jsnum" where
  "js_mul (Num a) (Num b) = Num (a * b)"
| "js_mul _ _ = NaN"

text \<open>Division by the literal \<open>2\<close>, the only divisor the loader uses.\<close>

fun js_half :: "jsnum \<Rightarrow> jsnum" where
  "js_half (Num a) = Num (a / 2)"
| "js_half _ = NaN"

text \<open>The operand test of \<open>!x\<close>: \<open>undefined\<close>, \<open>NaN\<close> and \<open>0\<close> are falsy.\<close>

fun falsy :: "jsnum \<Rightarrow> bool" where
  "falsy Undefined = True"
| "falsy NaN = True"
| "falsy (Num a) = (a = 0)"

text \<open>What an accessor of the parsed data set returns: \<open>undefined\<close> or a 16-bit value.\<close>

definition of_uint16 :: "16 word option \<Rightarrow> jsnum" where
  "of_uint16 v = (case v of None \<Rightarrow> Undefined | Some w \<Rightarrow> Num (of_int (uint w)))"

definition of_int16 :: "16 word option \<Rightarrow> jsnum" where
  "of_int16 v = (case v of None \<Rightarrow> Undefined | Some w \<Rightarrow> Num (of_int (sint w)))"

section \<open>Array buffers and typed-array views\<close>

text \<open>
  An \<open>ArrayBuffer\<close> is a reference into a store of byte sequences; a typed array is a
  window (buffer reference, byte offset, element count) on one of them and owns no bytes.
\<close>

type_synonym arraybuffer = nat
type_synonym store = "arraybuffer \<Rightarrow> 8 word list"

record uint8array =
  u8_buffer :: arraybuffer
  u8_byteOffset :: nat
  u8_length :: nat

record int16array =
  i16_buffer :: arraybuffer
  i16_byteOffset :: nat
  i16_length :: nat

text \<open>
  \<open>new Int16Array(buffer, byteOffset)\<close> with no length argument: a \<open>RangeError\<close> when the
  offset is odd, when the byte length of the buffer is odd, or when the offset lies beyond
  the buffer; otherwise the view runs from the offset to the end of the buffer.
\<close>

definition new_Int16Array :: "store \<Rightarrow> arraybuffer \<Rightarrow> nat \<Rightarrow> error + int16array" where
  "new_Int16Array st buf byteOffset =
     (if byteOffset mod 2 \<noteq> 0 then Inl RangeError
      else if length (st buf) mod 2 \<noteq> 0 then Inl RangeError
      else if length (st buf) < byteOffset then Inl RangeError
      else Inr \<lparr>i16_buffer = buf, i16_byteOffset = byteOffset,
                i16_length = (length (st buf) - byteOffset) div 2\<rparr>)"

text \<open>Two bytes, low byte first (the byte order of every platform the viewer runs on), read as a signed 16-bit sample.\<close>

definition int16_of_bytes :: "8 word \<Rightarrow> 8 word \<Rightarrow> int" where
  "int16_of_bytes lo hi =
     (let u = uint lo + 256 * uint hi in if u < 32768 then u else u - 65536)"

text \<open>\<open>view[i]\<close> for an index inside the view.\<close>

definition int16_at :: "store \<Rightarrow> int16array \<Rightarrow> nat \<Rightarrow> int" where
  "int16_at st a i =
     int16_of_bytes (st (i16_buffer a) ! (i16_byteOffset a + 2 * i))
                    (st (i16_buffer a) ! (i16_byteOffset a + 2 * i + 1))"

text \<open>The samples \<open>view[0], ..., view[view.length - 1]\<close>.\<close>

definition samples :: "store \<Rightarrow> int16array \<Rightarrow> int list" where
  "samples st a = map (int16_at st a) [0..<i16_length a]"

section \<open>The parsed data set\<close>

text \<open>
  \<open>dicomParser.parseDicom\<close> belongs to the library \<open>dicom-parser\<close>; the loader sees
  its result only through the accessors \<open>uint16\<close>, \<open>int16\<close> and \<open>string\<close>, the table
  \<open>elements\<close> and the property \<open>byteArray\<close>. An accessor returns \<open>undefined\<close> for a tag
  that is absent or empty, the decoded value otherwise, or throws.
\<close>

record element =
  dataOffset :: nat
  el_length :: nat

record dataSet =
  ds_uint16 :: "string \<Rightarrow> error + 16 word option"
  ds_int16 :: "string \<Rightarrow> error + 16 word option"
  ds_string :: "string \<Rightarrow> error + string option"
  elements :: "string \<rightharpoonup> element"
  byteArray :: uint8array

section \<open>createImageObjectFromDicom\<close>

record image =
  imageId :: string
  minPixelValue :: jsnum
  maxPixelValue :: jsnum
  slope :: rat
  intercept :: rat
  windowCenter :: jsnum
  windowWidth :: jsnum
  getPixelData :: int16array
  rows :: jsnum
  columns :: jsnum
  height :: jsnum
  width :: jsnum
  color :: bool
  columnPixelSpacing :: rat
  rowPixelSpacing :: rat
  invert :: bool
  sizeInBytes :: jsnum

text \<open>Sequencing of statements that may throw.\<close>

definition bind :: "error + 'a \<Rightarrow> ('a \<Rightarrow> error + 'b) \<Rightarrow> error + 'b" where
  "bind m f = (case m of Inl e \<Rightarrow> Inl e | Inr v \<Rightarrow> f v)"

text \<open>
  The body of \<open>for (let i = 1; i < pixelData.length; i++)\<close> that keeps the smaller
  (resp. larger) sample, run over the samples from index 1 on.
\<close>

fun min_loop :: "int list \<Rightarrow> int \<Rightarrow> int" where
  "min_loop [] m = m"
| "min_loop (p # ps) m = min_loop ps (if p < m then p else m)"

fun max_loop :: "int list \<Rightarrow> int \<Rightarrow> int" where
  "max_loop [] m = m"
| "max_loop (p # ps) m = max_loop ps (if p > m then p else m)"

text \<open>
  \<open>minPixelValue = pixelData[0]; for ...\<close>: \<open>pixelData[0]\<close> of an empty view is
  \<open>undefined\<close> and the loop body never runs.
\<close>

definition scan_min :: "int list \<Rightarrow> jsnum" where
  "scan_min pixelData =
     (case pixelData of [] \<Rightarrow> Undefined | p # ps \<Rightarrow> Num (of_int (min_loop ps p)))"

definition scan_max :: "int list \<Rightarrow> jsnum" where
  "scan_max pixelData =
     (case pixelData of [] \<Rightarrow> Undefined | p # ps \<Rightarrow> Num (of_int (max_loop ps p)))"

text \<open>\<open>dataSet.elements.x7fe00010\<close> followed by \<open>.dataOffset\<close>: a \<open>TypeError\<close> when the element is missing.\<close>

definition pixelDataOffset :: "dataSet \<Rightarrow> error + nat" where
  "pixelDataOffset ds =
     (case elements ds ''x7fe00010'' of None \<Rightarrow> Inl TypeError
      | Some pixelDataElement \<Rightarrow> Inr (dataOffset pixelDataElement))"

text \<open>
  The function, statement by statement. \<open>parseDicom\<close> is the library's parser, \<open>st\<close>
  the contents of the array buffers.
\<close>

definition createImageObjectFromDicom ::
  "store \<Rightarrow> (uint8array \<Rightarrow> error + dataSet) \<Rightarrow> string \<Rightarrow> uint8array \<Rightarrow> error + image" where
  "createImageObjectFromDicom st parseDicom imgId dicomByteArray =
     bind (parseDicom dicomByteArray) (\<lambda>ds.
     bind (ds_uint16 ds ''x00280011'') (\<lambda>w.
     bind (ds_uint16 ds ''x00280010'') (\<lambda>h.
     bind (ds_string ds ''x00280004'') (\<lambda>photoInterp.
     bind (pixelDataOffset ds) (\<lambda>off.
     bind (new_Int16Array st (u8_buffer (byteArray ds)) off) (\<lambda>pixelData.
     bind (ds_int16 ds ''x00280106'') (\<lambda>minTag.
     let minPixel = (if falsy (of_int16 minTag) then scan_min (samples st pixelData)
                     else of_int16 minTag) in
     bind (ds_int16 ds ''x00280107'') (\<lambda>maxTag.
     let maxPixel = (if falsy (of_int16 maxTag) then scan_max (samples st pixelData)
                     else of_int16 maxTag) in
     Inr \<lparr>imageId = imgId,
          minPixelValue = minPixel,
          maxPixelValue = maxPixel,
          slope = 1,
          intercept = 0,
          windowCenter = js_half (js_add maxPixel minPixel),
          windowWidth = js_sub maxPixel minPixel,
          getPixelData = pixelData,
          rows = of_uint16 h,
          columns = of_uint16 w,
          height = of_uint16 h,
          width = of_uint16 w,
          color = False,
          columnPixelSpacing = 1,
          rowPixelSpacing = 1,
          invert = (photoInterp = Some ''MONOCHROME1''),
          sizeInBytes = js_mul (of_uint16 w) (of_uint16 h)\<rparr>))))))))"

section \<open>Configuration of the loader\<close>

text \<open>
  The configuration is a plain object: its caller may store any value under any key.
  The loader tests the value with \<open>if (config.useWebworkersToFetch)\<close>, so only its
  truthiness counts.
\<close>

datatype jsvalue = JUndefined | JNull | JBool bool | JNumber rat | JNaN | JString string | JObject

fun truthy :: "jsvalue \<Rightarrow> bool" where
  "truthy JUndefined = False"
| "truthy JNull = False"
| "truthy (JBool b) = b"
| "truthy (JNumber n) = (n \<noteq> 0)"
| "truthy JNaN = False"
| "truthy (JString s) = (s \<noteq> [])"
| "truthy JObject = True"

type_synonym object = "string \<rightharpoonup> jsvalue"

text \<open>\<open>obj.key\<close>: \<open>undefined\<close> for a key the object does not have.\<close>

definition property :: "object \<Rightarrow> string \<Rightarrow> jsvalue" where
  "property ob k = (case ob k of None \<Rightarrow> JUndefined | Some v \<Rightarrow> v)"

text \<open>\<open>Object.assign(target, source1, ..., sourceN)\<close>: later sources overwrite earlier ones.\<close>

definition Object_assign :: "object \<Rightarrow> object list \<Rightarrow> object" where
  "Object_assign target sources = foldl (++) target sources"

definition defaultConfig :: object where
  "defaultConfig = [''useWebworkersToFetch'' \<mapsto> JBool False]"

section \<open>State of the loader module, workers and promises\<close>

datatype 'a promise = Pending | Fulfilled 'a | Rejected error

record message =
  action :: string
  url :: string

text \<open>
  The arrow function assigned to \<open>webworker.onmessage\<close>: a closure made by the executor of
  one promise (first argument, whose \<open>resolve\<close> and \<open>reject\<close> are in its scope) that holds
  the worker it was attached to (second argument).
\<close>

datatype handler = Handler nat nat

text \<open>
  Workers are numbered in the order \<open>new DicomWorker()\<close> made them, so \<open>created\<close> counts
  the constructor calls. \<open>onmessage\<close> is the handler slot of each worker, \<open>posted\<close> the
  messages sent with \<open>postMessage\<close>, and \<open>promises\<close> the state of the promise of each
  \<open>loadImage\<close> call, in call order.
\<close>

record loader =
  config :: object
  availableWebworkers :: "nat list"
  created :: nat
  onmessage :: "nat \<rightharpoonup> handler"
  posted :: "(nat \<times> message) list"
  promises :: "image promise list"

text \<open>The module as loaded: \<open>config = Object.assign({}, defaultConfig)\<close>, no worker.\<close>

definition initial :: loader where
  "initial = \<lparr>config = Object_assign Map.empty [defaultConfig], availableWebworkers = [],
              created = 0, onmessage = Map.empty, posted = [], promises = []\<rparr>"

definition configure :: "object \<Rightarrow> loader \<Rightarrow> loader" where
  "configure newConfig s = s\<lparr>config := Object_assign (config s) [defaultConfig, newConfig]\<rparr>"

section \<open>loadImage\<close>

text \<open>\<open>str.replace(pattern, replacement)\<close> with a string pattern: the first occurrence only.\<close>

fun replace_first :: "string \<Rightarrow> string \<Rightarrow> string \<Rightarrow> string" where
  "replace_first pat rep [] = (if pat = [] then rep else [])"
| "replace_first pat rep (c # cs) =
     (if take (length pat) (c # cs) = pat then rep @ drop (length pat) (c # cs)
      else c # replace_first pat rep cs)"

text \<open>
  \<open>availableWebworkers.length > 0 ? availableWebworkers.pop() : new DicomWorker()\<close>:
  the worker and the state after.
\<close>

definition acquire :: "loader \<Rightarrow> nat \<times> loader" where
  "acquire s =
     (if length (availableWebworkers s) > 0
      then (last (availableWebworkers s),
            s\<lparr>availableWebworkers := butlast (availableWebworkers s)\<rparr>)
      else (created s, s\<lparr>created := created s + 1\<rparr>))"

text \<open>
  The inline branch: what the promise becomes once \<open>api.fetchDicomFile(url)\<close> has settled
  (it stays pending if that never happens). An exception of the \<open>then\<close> callback goes to
  the \<open>catch\<close> callback, which rejects.
\<close>

definition inline_outcome ::
  "store \<Rightarrow> (uint8array \<Rightarrow> error + dataSet) \<Rightarrow> uint8array promise \<Rightarrow> string \<Rightarrow> image promise" where
  "inline_outcome st parseDicom fetched imgId =
     (case fetched of
        Pending \<Rightarrow> Pending
      | Rejected e \<Rightarrow> Rejected e
      | Fulfilled dicomByteArray \<Rightarrow>
          (case createImageObjectFromDicom st parseDicom imgId dicomByteArray of
             Inl e \<Rightarrow> Rejected e
           | Inr img \<Rightarrow> Fulfilled img))"

text \<open>
  \<open>loadImage\<close> returns the index of its promise and the new state. \<open>fetchDicomFile\<close> is
  \<open>api.fetchDicomFile\<close>.
\<close>

definition loadImage ::
  "store \<Rightarrow> (uint8array \<Rightarrow> error + dataSet) \<Rightarrow> (string \<Rightarrow> uint8array promise) \<Rightarrow>
   string \<Rightarrow> loader \<Rightarrow> nat \<times> loader" where
  "loadImage st parseDicom fetchDicomFile imgId s =
     (let target = replace_first ''dicomImageLoader'' ''https'' imgId;
          pid = length (promises s)
      in if truthy (property (config s) ''useWebworkersToFetch'')
         then (let (webworker, s1) = acquire s;
                   s2 = s1\<lparr>onmessage := (onmessage s1)(webworker \<mapsto> Handler pid webworker)\<rparr>;
                   s3 = s2\<lparr>posted := posted s2 @
                              [(webworker, \<lparr>action = ''fetchDicom'', url = target\<rparr>)]\<rparr>
               in (pid, s3\<lparr>promises := promises s3 @ [Pending]\<rparr>))
         else (pid, s\<lparr>promises := promises s @
                        [inline_outcome st parseDicom (fetchDicomFile target) imgId]\<rparr>))"

text \<open>
  A message from worker \<open>w\<close> reaches the main thread: the handler in its slot, if any,
  runs. Its body is \<open>availableWebworkers.push(webworker)\<close>.
\<close>

definition deliver :: "nat \<Rightarrow> loader \<Rightarrow> loader" where
  "deliver w s =
     (case onmessage s w of
        None \<Rightarrow> s
      | Some (Handler pid webworker) \<Rightarrow>
          s\<lparr>availableWebworkers := availableWebworkers s @ [webworker]\<rparr>)"

section \<open>authenticatedFetch\<close>

record response =
  ok :: bool
  status :: nat

text \<open>
  The identity module is outside the loader: \<open>accessToken\<close> is what
  \<open>auth.getAccessToken()\<close> returns (\<open>None\<close> for \<open>null\<close> or \<open>undefined\<close>) and
  \<open>signInCalls\<close> counts the calls of \<open>auth.signInToGoogle()\<close>.
\<close>

record auth =
  accessToken :: "string option"
  signInCalls :: nat

definition signInToGoogle :: "auth \<Rightarrow> auth" where
  "signInToGoogle a = a\<lparr>signInCalls := signInCalls a + 1\<rparr>"

text \<open>
  The async function: its promise and the state of the identity module after.
  \<open>fetch\<close> takes the address and the \<open>Authorization\<close> header. Without a truthy token the
  function signs in and returns \<open>undefined\<close> (\<open>Fulfilled None\<close>).
\<close>

definition authenticatedFetch ::
  "(string \<Rightarrow> string \<Rightarrow> response promise) \<Rightarrow> string \<Rightarrow> auth \<Rightarrow> response option promise \<times> auth" where
  "authenticatedFetch fetch target a =
     (case accessToken a of
        None \<Rightarrow> (Fulfilled None, signInToGoogle a)
      | Some token \<Rightarrow>
          if token = [] then (Fulfilled None, signInToGoogle a)
          else (case fetch target (''Bearer '' @ token) of
                  Pending \<Rightarrow> (Pending, a)
                | Rejected e \<Rightarrow> (Rejected e, a)
                | Fulfilled r \<Rightarrow>
                    if \<not> ok r
                    then (if status r = 401 then (Fulfilled (Some r), signInToGoogle a)
                          else (Rejected Error, a))
                    else (Fulfilled (Some r), a)))"

section \<open>Synthetic payloads\<close>

text \<open>
  A data set as the parser would return it for a small file held in array buffer 0:
  rows \<open>r\<close>, columns \<open>c\<close>, photometric interpretation \<open>photo\<close>, smallest and largest
  sample value \<open>mn\<close> and \<open>mx\<close>, pixel-data element \<open>px\<close>; \<open>None\<close> is an absent tag.
\<close>

definition synthetic_store :: "8 word list \<Rightarrow> store" where
  "synthetic_store bytes = (\<lambda>b. if b = 0 then bytes else [])"

definition synthetic ::
  "16 word option \<Rightarrow> 16 word option \<Rightarrow> string option \<Rightarrow> 16 word option \<Rightarrow> 16 word option \<Rightarrow>
   element option \<Rightarrow> nat \<Rightarrow> dataSet" where
  "synthetic r c photo mn mx px n =
     \<lparr>ds_uint16 = (\<lambda>tag. Inr (if tag = ''x00280010'' then r
                                else if tag = ''x00280011'' then c else None)),
      ds_int16 = (\<lambda>tag. Inr (if tag = ''x00280106'' then mn
                               else if tag = ''x00280107'' then mx else None)),
      ds_string = (\<lambda>tag. Inr (if tag = ''x00280004'' then photo else None)),
      elements = (\<lambda>tag. if tag = ''x7fe00010'' then px else None),
      byteArray = \<lparr>u8_buffer = 0, u8_byteOffset = 0, u8_length = n\<rparr>\<rparr>"

definition decode_synthetic :: "8 word list \<Rightarrow> dataSet \<Rightarrow> error + image" where
  "decode_synthetic bytes ds =
     createImageObjectFromDicom (synthetic_store bytes) (\<lambda>b. Inr ds) ''dicomImageLoader://i/1''
       \<lparr>u8_buffer = 0, u8_byteOffset = 0, u8_length = length bytes\<rparr>"

text \<open>Four bytes of header, then the samples 10, 50, -5, 30.\<close>

definition payload :: "8 word list" where
  "payload = [0, 0, 0, 0, 10, 0, 50, 0, 251, 255, 30, 0]"


text \<open>Four bytes of header, then the samples 10, 50, 5, 30.\<close>

definition payload_positive :: "8 word list" where
  "payload_positive = [0, 0, 0, 0, 10, 0, 50, 0, 5, 0, 30, 0]"

definition block :: "element option" where
  "block = Some \<lparr>dataOffset = 4, el_length = 8\<rparr>"

text \<open>The image expected of \<open>payload\<close> with 2 rows and 2 columns, for either photometric interpretation.\<close>

definition expected_image :: "bool \<Rightarrow> image" where
  "expected_image inverted =
     \<lparr>imageId = ''dicomImageLoader://i/1'', minPixelValue = Num (- 5), maxPixelValue = Num 50,
      slope = 1, intercept = 0, windowCenter = Num (45 / 2), windowWidth = Num 55,
      getPixelData = \<lparr>i16_buffer = 0, i16_byteOffset = 4, i16_length = 4\<rparr>,
      rows = Num 2, columns = Num 2, height = Num 2, width = Num 2, color = False,
      columnPixelSpacing = 1, rowPixelSpacing = 1, invert = inverted, sizeInBytes = Num 4\<rparr>"

section \<open>A short run of the loader\<close>

text \<open>
  The module after \<open>configure({useWebworkersToFetch: true})\<close>; a first \<open>loadImage\<close>
  in that state; the state once the worker of that call has answered; a second
  \<open>loadImage\<close> after that.
\<close>

definition worker_mode :: loader where
  "worker_mode = configure [''useWebworkersToFetch'' \<mapsto> JBool True] initial"

definition first_load :: "nat \<times> loader" where
  "first_load =
     loadImage (synthetic_store payload) (\<lambda>b. Inl Error) (\<lambda>target. Pending)
       ''dicomImageLoader://i/1'' worker_mode"

definition released :: loader where
  "released = deliver 0 (snd first_load)"

definition second_load :: "nat \<times> loader" where
  "second_load =
     loadImage (synthetic_store payload) (\<lambda>b. Inl Error) (\<lambda>target. Pending)
       ''dicomImageLoader://i/2'' released"

text \<open>A transport that answers every request with the response \<open>r\<close>.\<close>

definition respond :: "response \<Rightarrow> string \<Rightarrow> string \<Rightarrow> response promise" where
  "respond r target header = Fulfilled r"

section \<open>Auxiliary facts\<close>

lemma bind_Inr_iff: "bind m f = Inr y \<longleftrightarrow> (\<exists>v. m = Inr v \<and> f v = Inr y)"
  by (cases m) (simp_all add: bind_def)

lemma bind_Inl: "bind (Inl e) f = Inl e"
  by (simp add: bind_def)

lemma bind_Inr: "bind (Inr v) f = f v"
  by (simp add: bind_def)

lemma pixelDataOffset_Inr_iff:
  "pixelDataOffset ds = Inr off \<longleftrightarrow>
     (\<exists>el. elements ds ''x7fe00010'' = Some el \<and> off = dataOffset el)"
  by (auto simp: pixelDataOffset_def split: option.splits)

text \<open>What a successful decode tells about its input and its result.\<close>

lemma decode_Inr_cases:
  assumes "createImageObjectFromDicom st parseDicom imgId bytes = Inr img"
  obtains ds w h photo el pixelData minTag maxTag where
    "parseDicom bytes = Inr ds"
    "ds_uint16 ds ''x00280011'' = Inr w"
    "ds_uint16 ds ''x00280010'' = Inr h"
    "ds_string ds ''x00280004'' = Inr photo"
    "elements ds ''x7fe00010'' = Some el"
    "new_Int16Array st (u8_buffer (byteArray ds)) (dataOffset el) = Inr pixelData"
    "ds_int16 ds ''x00280106'' = Inr minTag"
    "ds_int16 ds ''x00280107'' = Inr maxTag"
    "minPixelValue img =
       (if falsy (of_int16 minTag) then scan_min (samples st pixelData) else of_int16 minTag)"
    "maxPixelValue img =
       (if falsy (of_int16 maxTag) then scan_max (samples st pixelData) else of_int16 maxTag)"
    "windowCenter img = js_half (js_add (maxPixelValue img) (minPixelValue img))"
    "windowWidth img = js_sub (maxPixelValue img) (minPixelValue img)"
    "getPixelData img = pixelData"
    "invert img = (photo = Some ''MONOCHROME1'')"
    "rows img = of_uint16 h"
    "columns img = of_uint16 w"
proof -
  let ?mn = "\<lambda>minTag pixelData.
    if falsy (of_int16 minTag) then scan_min (samples st pixelData) else of_int16 minTag"
  let ?mx = "\<lambda>maxTag pixelData.
    if falsy (of_int16 maxTag) then scan_max (samples st pixelData) else of_int16 maxTag"
  from assms obtain ds w h photo off pixelData minTag maxTag where
    a: "parseDicom bytes = Inr ds"
      "ds_uint16 ds ''x00280011'' = Inr w"
      "ds_uint16 ds ''x00280010'' = Inr h"
      "ds_string ds ''x00280004'' = Inr photo"
      "pixelDataOffset ds = Inr off"
      "new_Int16Array st (u8_buffer (byteArray ds)) off = Inr pixelData"
      "ds_int16 ds ''x00280106'' = Inr minTag"
      "ds_int16 ds ''x00280107'' = Inr maxTag"
    and img: "img = \<lparr>imageId = imgId,
          minPixelValue = ?mn minTag pixelData,
          maxPixelValue = ?mx maxTag pixelData,
          slope = 1, intercept = 0,
          windowCenter = js_half (js_add (?mx maxTag pixelData) (?mn minTag pixelData)),
          windowWidth = js_sub (?mx maxTag pixelData) (?mn minTag pixelData),
          getPixelData = pixelData,
          rows = of_uint16 h, columns = of_uint16 w, height = of_uint16 h, width = of_uint16 w,
          color = False, columnPixelSpacing = 1, rowPixelSpacing = 1,
          invert = (photo = Some ''MONOCHROME1''),
          sizeInBytes = js_mul (of_uint16 w) (of_uint16 h)\<rparr>"
    unfolding createImageObjectFromDicom_def bind_Inr_iff Let_def by blast
  from a(5) obtain el where el: "elements ds ''x7fe00010'' = Some el" "off = dataOffset el"
    by (auto simp: pixelDataOffset_Inr_iff)
  show thesis
    by (rule that[OF a(1-4) el(1) a(6)[unfolded el(2)] a(7,8)]) (simp_all add: img)
qed

text \<open>The two loops compute the minimum and the maximum of the samples.\<close>

lemma min_loop_fold: "min_loop ps m = fold min ps m"
  by (induction ps arbitrary: m) (simp_all add: min_def not_less less_le)

lemma max_loop_fold: "max_loop ps m = fold max ps m"
  by (induction ps arbitrary: m) (simp_all add: max_def not_less less_le)

lemma scan_min_Min: "pixelData \<noteq> [] \<Longrightarrow> scan_min pixelData = Num (of_int (Min (set pixelData)))"
  by (cases pixelData) (simp_all add: scan_min_def min_loop_fold flip: Min.set_eq_fold)

lemma scan_max_Max: "pixelData \<noteq> [] \<Longrightarrow> scan_max pixelData = Num (of_int (Max (set pixelData)))"
  by (cases pixelData) (simp_all add: scan_max_def max_loop_fold flip: Max.set_eq_fold)

text \<open>A tag that is present and not zero is used as it is; an absent tag leads to the scan.\<close>

lemma falsy_of_int16_Some: "falsy (of_int16 (Some w)) \<longleftrightarrow> w = 0"
  by (simp add: of_int16_def signed_eq_0_iff)

lemma decode_uses_nonzero_tags:
  assumes "createImageObjectFromDicom st parseDicom imgId bytes = Inr img"
    and "parseDicom bytes = Inr ds"
    and "ds_int16 ds ''x00280106'' = Inr (Some mn)" and "mn \<noteq> 0"
    and "ds_int16 ds ''x00280107'' = Inr (Some mx)" and "mx \<noteq> 0"
  shows "minPixelValue img = Num (of_int (sint mn)) \<and> maxPixelValue img = Num (of_int (sint mx))"
  using assms(1)
proof (rule decode_Inr_cases)
  fix ds' pixelData minTag maxTag
  assume "parseDicom bytes = Inr ds'"
    and "ds_int16 ds' ''x00280106'' = Inr minTag" and "ds_int16 ds' ''x00280107'' = Inr maxTag"
    and "minPixelValue img =
       (if falsy (of_int16 minTag) then scan_min (samples st pixelData) else of_int16 minTag)"
    and "maxPixelValue img =
       (if falsy (of_int16 maxTag) then scan_max (samples st pixelData) else of_int16 maxTag)"
  with assms(2-) show ?thesis
    by (auto simp: falsy_of_int16_Some) (simp_all add: of_int16_def)
qed

lemma decode_scans_without_tags:
  assumes "createImageObjectFromDicom st parseDicom imgId bytes = Inr img"
    and "parseDicom bytes = Inr ds"
    and "ds_int16 ds ''x00280106'' = Inr None"
    and "ds_int16 ds ''x00280107'' = Inr None"
    and "samples st (getPixelData img) \<noteq> []"
  shows "minPixelValue img = Num (of_int (Min (set (samples st (getPixelData img))))) \<and>
         maxPixelValue img = Num (of_int (Max (set (samples st (getPixelData img)))))"
  using assms(1)
proof (rule decode_Inr_cases)
  fix ds' pixelData minTag maxTag
  assume "parseDicom bytes = Inr ds'"
    and "ds_int16 ds' ''x00280106'' = Inr minTag" and "ds_int16 ds' ''x00280107'' = Inr maxTag"
    and "minPixelValue img =
       (if falsy (of_int16 minTag) then scan_min (samples st pixelData) else of_int16 minTag)"
    and "maxPixelValue img =
       (if falsy (of_int16 maxTag) then scan_max (samples st pixelData) else of_int16 maxTag)"
    and "getPixelData img = pixelData"
  with assms(2-) show ?thesis
    by (auto simp: of_int16_def scan_min_Min scan_max_Max)
qed

text \<open>Evaluation of the decoder on the synthetic payloads.\<close>

lemmas decode_defs = decode_synthetic_def createImageObjectFromDicom_def bind_def synthetic_def
  synthetic_store_def pixelDataOffset_def new_Int16Array_def of_int16_def of_uint16_def
  samples_def int16_at_def int16_of_bytes_def scan_min_def scan_max_def block_def
  expected_image_def upt_conv_Cons


text \<open>The loader, branch by branch.\<close>

lemma loadImage_inline:
  assumes "\<not> truthy (property (config s) ''useWebworkersToFetch'')"
  shows "loadImage st parseDicom fetchDicomFile imgId s =
     (length (promises s),
      s\<lparr>promises := promises s @
           [inline_outcome st parseDicom
              (fetchDicomFile (replace_first ''dicomImageLoader'' ''https'' imgId)) imgId]\<rparr>)"
  using assms by (simp add: loadImage_def)

lemma loadImage_reuse:
  assumes "truthy (property (config s) ''useWebworkersToFetch'')"
    and "availableWebworkers s \<noteq> []"
  shows "loadImage st parseDicom fetchDicomFile imgId s =
     (length (promises s),
      s\<lparr>availableWebworkers := butlast (availableWebworkers s),
        onmessage := (onmessage s)(last (availableWebworkers s) \<mapsto>
                        Handler (length (promises s)) (last (availableWebworkers s))),
        posted := posted s @
          [(last (availableWebworkers s),
            \<lparr>action = ''fetchDicom'',
             url = replace_first ''dicomImageLoader'' ''https'' imgId\<rparr>)],
        promises := promises s @ [Pending]\<rparr>)"
  using assms by (simp add: loadImage_def acquire_def Let_def)

lemma loadImage_create:
  assumes "truthy (property (config s) ''useWebworkersToFetch'')"
    and "availableWebworkers s = []"
  shows "loadImage st parseDicom fetchDicomFile imgId s =
     (length (promises s),
      s\<lparr>created := created s + 1,
        onmessage := (onmessage s)(created s \<mapsto> Handler (length (promises s)) (created s)),
        posted := posted s @
          [(created s,
            \<lparr>action = ''fetchDicom'',
             url = replace_first ''dicomImageLoader'' ''https'' imgId\<rparr>)],
        promises := promises s @ [Pending]\<rparr>)"
  using assms by (simp add: loadImage_def acquire_def Let_def)

lemma promises_deliver: "promises (deliver w s) = promises s"
  by (simp add: deliver_def split: option.splits handler.splits)

lemma promises_fold_deliver: "promises (fold deliver ws s) = promises s"
  by (induction ws arbitrary: s) (simp_all add: promises_deliver)

lemma loadImage_webworker_pending:
  assumes "truthy (property (config s) ''useWebworkersToFetch'')"
  shows "promises (fold deliver ws (snd (loadImage st parseDicom fetchDicomFile imgId s))) !
           fst (loadImage st parseDicom fetchDicomFile imgId s) = Pending"
proof (cases "availableWebworkers s = []")
  case True
  with assms show ?thesis
    by (simp add: promises_fold_deliver loadImage_create)
next
  case False
  with assms show ?thesis
    by (simp add: promises_fold_deliver loadImage_reuse)
qed

lemma config_initial: "config initial = defaultConfig"
  by (simp add: initial_def Object_assign_def)

lemma config_configure: "config (configure newConfig s) = config s ++ defaultConfig ++ newConfig"
  by (simp add: configure_def Object_assign_def)

lemma flag_on:
  "truthy (property (config (configure [''useWebworkersToFetch'' \<mapsto> JBool True] s))
     ''useWebworkersToFetch'')"
  by (simp add: config_configure property_def)

text \<open>Failure of the decoder.\<close>

lemma decode_parse_error:
  "parseDicom bytes = Inl e \<Longrightarrow> createImageObjectFromDicom st parseDicom imgId bytes = Inl e"
  by (simp add: createImageObjectFromDicom_def bind_def)

lemma decode_no_pixel_data:
  assumes "parseDicom bytes = Inr ds" and "elements ds ''x7fe00010'' = None"
  shows "isl (createImageObjectFromDicom st parseDicom imgId bytes)"
proof (rule ccontr)
  assume "\<not> isl (createImageObjectFromDicom st parseDicom imgId bytes)"
  then obtain img where "createImageObjectFromDicom st parseDicom imgId bytes = Inr img"
    by (cases "createImageObjectFromDicom st parseDicom imgId bytes") simp_all
  then show False
  proof (rule decode_Inr_cases)
    fix ds' el
    assume "parseDicom bytes = Inr ds'" and "elements ds' ''x7fe00010'' = Some el"
    with assms show False by simp
  qed
qed

lemma decode_no_pixel_data_TypeError:
  assumes "parseDicom bytes = Inr ds" and "elements ds ''x7fe00010'' = None"
    and "ds_uint16 ds ''x00280011'' = Inr w" and "ds_uint16 ds ''x00280010'' = Inr h"
    and "ds_string ds ''x00280004'' = Inr photo"
  shows "createImageObjectFromDicom st parseDicom imgId bytes = Inl TypeError"
  using assms by (simp add: createImageObjectFromDicom_def bind_def pixelDataOffset_def)

lemma decode_succeeds:
  assumes "parseDicom bytes = Inr ds" and "elements ds ''x7fe00010'' = Some el"
    and "ds_uint16 ds ''x00280011'' = Inr w" and "ds_uint16 ds ''x00280010'' = Inr h"
    and "ds_string ds ''x00280004'' = Inr photo"
    and "ds_int16 ds ''x00280106'' = Inr mn" and "ds_int16 ds ''x00280107'' = Inr mx"
    and "even (dataOffset el)" and "even (length (st (u8_buffer (byteArray ds))))"
    and "dataOffset el \<le> length (st (u8_buffer (byteArray ds)))"
  shows "\<not> isl (createImageObjectFromDicom st parseDicom imgId bytes)"
  using assms
  by (simp add: createImageObjectFromDicom_def bind_def pixelDataOffset_def new_Int16Array_def
      Let_def even_iff_mod_2_eq_zero)


text \<open>The short run, evaluated.\<close>

lemma worker_mode_flag: "truthy (property (config worker_mode) ''useWebworkersToFetch'')"
  by (simp add: worker_mode_def flag_on)

lemma worker_mode_fields:
  "availableWebworkers worker_mode = []" "created worker_mode = 0" "promises worker_mode = []"
  by (simp_all add: worker_mode_def configure_def initial_def)

lemma first_load_fields:
  "fst first_load = 0"
  "availableWebworkers (snd first_load) = []"
  "created (snd first_load) = 1"
  "onmessage (snd first_load) 0 = Some (Handler 0 0)"
  "posted (snd first_load) = [(0, \<lparr>action = ''fetchDicom'', url = ''https://i/1''\<rparr>)]"
  "promises (snd first_load) = [Pending]"
  "config (snd first_load) = config worker_mode"
  by (simp_all add: first_load_def loadImage_create [OF worker_mode_flag] worker_mode_fields)
     (simp_all add: worker_mode_def configure_def initial_def)

lemma released_fields:
  "availableWebworkers released = [0]"
  "created released = 1"
  "onmessage released 0 = Some (Handler 0 0)"
  "promises released = [Pending]"
  "config released = config worker_mode"
  by (simp_all add: released_def deliver_def first_load_fields)

lemma released_flag: "truthy (property (config released) ''useWebworkersToFetch'')"
  by (simp add: released_fields worker_mode_flag)

lemma second_load_fields:
  "fst second_load = 1"
  "availableWebworkers (snd second_load) = []"
  "created (snd second_load) = 1"
  "onmessage (snd second_load) 0 = Some (Handler 1 0)"
  "posted (snd second_load) =
     [(0, \<lparr>action = ''fetchDicom'', url = ''https://i/1''\<rparr>),
      (0, \<lparr>action = ''fetchDicom'', url = ''https://i/2''\<rparr>)]"
  "promises (snd second_load) = [Pending, Pending]"
  by (simp_all add: second_load_def loadImage_reuse [OF released_flag] released_fields)
     (simp_all add: released_def deliver_def first_load_fields)

lemma deliver_handler:
  assumes "onmessage s w = Some (Handler pid w')"
  shows "onmessage (deliver w s) = onmessage s"
    and "availableWebworkers (deliver w s) = availableWebworkers s @ [w']"
  using assms by (simp_all add: deliver_def)

section \<open>The promise of loadImage\<close>

text \<open>
  C1. Every call of \<open>loadImage\<close> should end in exactly one outcome, an image or an error,
  whatever the configuration. With \<open>useWebworkersToFetch\<close> set this is not so: the promise
  of the call is pending after the call and stays pending whatever messages the workers send
  afterwards, since the only handler installed puts the worker back on the list and calls
  neither \<open>resolve\<close> nor \<open>reject\<close>.
\<close>

theorem loadImage_webworker_never_settles:
  "promises (fold deliver ws
     (snd (loadImage st parseDicom fetchDicomFile imgId
        (configure [''useWebworkersToFetch'' \<mapsto> JBool True] initial)))) !
     fst (loadImage st parseDicom fetchDicomFile imgId
        (configure [''useWebworkersToFetch'' \<mapsto> JBool True] initial)) = Pending"
  by (rule loadImage_webworker_pending) (rule flag_on)

section \<open>Window, inversion and the sample range\<close>



text \<open>
  C3. The decoder should take the smallest and largest sample value from the data set
  whenever the tags are present, a value of 0 included. It tests the tag with \<open>!\<close>, so a
  tag that holds 0 counts as missing: for the samples 10, 50, 5, 30 and the tags
  smallest = 0, largest = 50 the image has smallest value 5, centre 27.5 and width 45,
  where the tags give 0, 25 and 50.
\<close>

theorem decode_ignores_zero_tag:
  "decode_synthetic payload_positive
       (synthetic (Some 2) (Some 2) (Some ''MONOCHROME2'') (Some 0) (Some 50) block 12) =
     Inr \<lparr>imageId = ''dicomImageLoader://i/1'', minPixelValue = Num 5, maxPixelValue = Num 50,
          slope = 1, intercept = 0, windowCenter = Num (55 / 2), windowWidth = Num 45,
          getPixelData = \<lparr>i16_buffer = 0, i16_byteOffset = 4, i16_length = 4\<rparr>,
          rows = Num 2, columns = Num 2, height = Num 2, width = Num 2, color = False,
          columnPixelSpacing = 1, rowPixelSpacing = 1, invert = False, sizeInBytes = Num 4\<rparr>"
  by (simp add: decode_defs payload_positive_def)

section \<open>Rejected payloads\<close>

text \<open>
  C4 as stated fails: a data set without rows, columns and photometric interpretation is
  decoded into an image (with \<open>undefined\<close> dimensions), and so is one that declares 3 rows
  and 3 columns, 18 bytes, over a pixel-data block of 8 bytes.
\<close>

theorem decode_accepts_missing_tags_and_short_block:
  "decode_synthetic payload (synthetic None None None None None block 12) =
     Inr \<lparr>imageId = ''dicomImageLoader://i/1'', minPixelValue = Num (- 5), maxPixelValue = Num 50,
          slope = 1, intercept = 0, windowCenter = Num (45 / 2), windowWidth = Num 55,
          getPixelData = \<lparr>i16_buffer = 0, i16_byteOffset = 4, i16_length = 4\<rparr>,
          rows = Undefined, columns = Undefined, height = Undefined, width = Undefined,
          color = False, columnPixelSpacing = 1, rowPixelSpacing = 1, invert = False,
          sizeInBytes = NaN\<rparr> \<and>
   decode_synthetic payload
       (synthetic (Some 3) (Some 3) (Some ''MONOCHROME2'') None None block 12) =
     Inr \<lparr>imageId = ''dicomImageLoader://i/1'', minPixelValue = Num (- 5), maxPixelValue = Num 50,
          slope = 1, intercept = 0, windowCenter = Num (45 / 2), windowWidth = Num 55,
          getPixelData = \<lparr>i16_buffer = 0, i16_byteOffset = 4, i16_length = 4\<rparr>,
          rows = Num 3, columns = Num 3, height = Num 3, width = Num 3,
          color = False, columnPixelSpacing = 1, rowPixelSpacing = 1, invert = False,
          sizeInBytes = Num 9\<rparr>"
  by (simp add: decode_defs payload_def)

text \<open>
  C4, amended. The decoder fails, and returns no image, for every payload the parser
  rejects (with the parser's error) and for every payload whose pixel-data element is absent
  (with a \<open>TypeError\<close> once the accessors of rows, columns and photometric interpretation
  have returned). It checks nothing else: when the accessors return and the pixel-data
  element lies at an even offset inside a buffer of even length, it returns an image,
  whatever tags are absent and whatever size the data set declares.
\<close>

theorem decode_fails_without_pixel_data:
  "(parseDicom bytes = Inl e \<longrightarrow>
      createImageObjectFromDicom st parseDicom imgId bytes = Inl e) \<and>
   (parseDicom bytes = Inr ds \<and> elements ds ''x7fe00010'' = None \<longrightarrow>
      isl (createImageObjectFromDicom st parseDicom imgId bytes)) \<and>
   (parseDicom bytes = Inr ds \<and> elements ds ''x7fe00010'' = None \<and>
    ds_uint16 ds ''x00280011'' = Inr w \<and> ds_uint16 ds ''x00280010'' = Inr h \<and>
    ds_string ds ''x00280004'' = Inr photo \<longrightarrow>
      createImageObjectFromDicom st parseDicom imgId bytes = Inl TypeError) \<and>
   (parseDicom bytes = Inr ds \<and> elements ds ''x7fe00010'' = Some el \<and>
    ds_uint16 ds ''x00280011'' = Inr w \<and> ds_uint16 ds ''x00280010'' = Inr h \<and>
    ds_string ds ''x00280004'' = Inr photo \<and>
    ds_int16 ds ''x00280106'' = Inr mn \<and> ds_int16 ds ''x00280107'' = Inr mx \<and>
    even (dataOffset el) \<and> even (length (st (u8_buffer (byteArray ds)))) \<and>
    dataOffset el \<le> length (st (u8_buffer (byteArray ds))) \<longrightarrow>
      \<not> isl (createImageObjectFromDicom st parseDicom imgId bytes))"
proof (intro conjI impI; (elim conjE)?)
  assume "parseDicom bytes = Inl e"
  then show "createImageObjectFromDicom st parseDicom imgId bytes = Inl e"
    by (rule decode_parse_error)
next
  assume "parseDicom bytes = Inr ds" and "elements ds ''x7fe00010'' = None"
  then show "isl (createImageObjectFromDicom st parseDicom imgId bytes)"
    by (rule decode_no_pixel_data)
next
  assume "parseDicom bytes = Inr ds" and "elements ds ''x7fe00010'' = None"
    and "ds_uint16 ds ''x00280011'' = Inr w" and "ds_uint16 ds ''x00280010'' = Inr h"
    and "ds_string ds ''x00280004'' = Inr photo"
  then show "createImageObjectFromDicom st parseDicom imgId bytes = Inl TypeError"
    by (rule decode_no_pixel_data_TypeError)
next
  assume "parseDicom bytes = Inr ds" and "elements ds ''x7fe00010'' = Some el"
    and "ds_uint16 ds ''x00280011'' = Inr w" and "ds_uint16 ds ''x00280010'' = Inr h"
    and "ds_string ds ''x00280004'' = Inr photo"
    and "ds_int16 ds ''x00280106'' = Inr mn" and "ds_int16 ds ''x00280107'' = Inr mx"
    and "even (dataOffset el)" and "even (length (st (u8_buffer (byteArray ds))))"
    and "dataOffset el \<le> length (st (u8_buffer (byteArray ds)))"
  then show "\<not> isl (createImageObjectFromDicom st parseDicom imgId bytes)"
    by (rule decode_succeeds)
qed

theorem decode_fails_without_pixel_data_witness:
  "createImageObjectFromDicom (synthetic_store payload) (\<lambda>b. Inl Error) ''dicomImageLoader://i/1''
       \<lparr>u8_buffer = 0, u8_byteOffset = 0, u8_length = 12\<rparr> = Inl Error \<and>
   elements (synthetic (Some 2) (Some 2) (Some ''MONOCHROME2'') None None None 12) ''x7fe00010'' = None \<and>
   decode_synthetic payload
       (synthetic (Some 2) (Some 2) (Some ''MONOCHROME2'') None None None 12) = Inl TypeError \<and>
   elements (synthetic None None None None None block 12) ''x7fe00010'' =
     Some \<lparr>dataOffset = 4, el_length = 8\<rparr> \<and>
   \<not> isl (decode_synthetic payload (synthetic None None None None None block 12))"
  using
    decode_fails_without_pixel_data
      [of "\<lambda>b. Inl Error" "\<lparr>u8_buffer = 0, u8_byteOffset = 0, u8_length = 12\<rparr>" Error
          "synthetic_store payload" "''dicomImageLoader://i/1''"]
    decode_fails_without_pixel_data
      [of "\<lambda>b. Inr (synthetic (Some 2) (Some 2) (Some ''MONOCHROME2'') None None None 12)"
          "\<lparr>u8_buffer = 0, u8_byteOffset = 0, u8_length = length payload\<rparr>" Error
          "synthetic_store payload" "''dicomImageLoader://i/1''"
          "synthetic (Some 2) (Some 2) (Some ''MONOCHROME2'') None None None 12"
          "Some 2" "Some 2" "Some ''MONOCHROME2''"]
    decode_fails_without_pixel_data
      [of "\<lambda>b. Inr (synthetic None None None None None block 12)"
          "\<lparr>u8_buffer = 0, u8_byteOffset = 0, u8_length = length payload\<rparr>" Error
          "synthetic_store payload" "''dicomImageLoader://i/1''"
          "synthetic None None None None None block 12"
          None None None "\<lparr>dataOffset = 4, el_length = 8\<rparr>" None None]
  by (simp add: decode_synthetic_def synthetic_def synthetic_store_def payload_def block_def)

section \<open>The pixel buffer\<close>




section \<open>Authorization failures of authenticatedFetch\<close>

text \<open>
  C5 as stated fails: with a token, a response of status 401 is handed back to the caller
  as the result of the call, after the sign-in was started; the call does not fail.
\<close>

theorem authenticatedFetch_401_returns_response:
  "authenticatedFetch (respond \<lparr>ok = False, status = 401\<rparr>)
       ''https://healthcare.googleapis.com/v1/projects''
       \<lparr>accessToken = Some ''token'', signInCalls = 0\<rparr> =
     (Fulfilled (Some \<lparr>ok = False, status = 401\<rparr>),
      \<lparr>accessToken = Some ''token'', signInCalls = 1\<rparr>)"
  by (simp add: authenticatedFetch_def signInToGoogle_def respond_def)

text \<open>
  C5, amended. With a token, a response that is not ok and has status 401 makes
  \<open>authenticatedFetch\<close> call the sign-in of the identity module once and return that
  response to its caller (no error). Other failures do not call the sign-in: a response that
  is not ok with another status raises an error, and a failure of the transport is passed
  on. Without a token (none, or the empty string) the function calls the sign-in once,
  sends no request and returns \<open>undefined\<close>.
\<close>

theorem authenticatedFetch_reauthenticates_on_401_only:
  "(accessToken a = Some token \<and> token \<noteq> [] \<and>
    fetch target (''Bearer '' @ token) = Fulfilled r \<and> \<not> ok r \<and> status r = 401 \<longrightarrow>
      authenticatedFetch fetch target a = (Fulfilled (Some r), signInToGoogle a) \<and>
      signInCalls (snd (authenticatedFetch fetch target a)) = signInCalls a + 1) \<and>
   (accessToken a = Some token \<and> token \<noteq> [] \<and>
    fetch target (''Bearer '' @ token) = Fulfilled r \<and> \<not> ok r \<and> status r \<noteq> 401 \<longrightarrow>
      authenticatedFetch fetch target a = (Rejected Error, a)) \<and>
   (accessToken a = Some token \<and> token \<noteq> [] \<and>
    fetch target (''Bearer '' @ token) = Rejected e \<longrightarrow>
      authenticatedFetch fetch target a = (Rejected e, a)) \<and>
   (accessToken a = Some token \<and> token \<noteq> [] \<and>
    fetch target (''Bearer '' @ token) = Fulfilled r \<and> ok r \<longrightarrow>
      authenticatedFetch fetch target a = (Fulfilled (Some r), a)) \<and>
   (accessToken a = None \<longrightarrow>
      authenticatedFetch fetch target a = (Fulfilled None, signInToGoogle a) \<and>
      signInCalls (snd (authenticatedFetch fetch target a)) = signInCalls a + 1) \<and>
   (accessToken a = Some [] \<longrightarrow>
      authenticatedFetch fetch target a = (Fulfilled None, signInToGoogle a) \<and>
      signInCalls (snd (authenticatedFetch fetch target a)) = signInCalls a + 1)"
  by (simp add: authenticatedFetch_def signInToGoogle_def)

theorem authenticatedFetch_reauthenticates_on_401_only_witness:
  "signInCalls (snd (authenticatedFetch (respond \<lparr>ok = False, status = 401\<rparr>)
       ''u'' \<lparr>accessToken = Some ''token'', signInCalls = 0\<rparr>)) = 1 \<and>
   authenticatedFetch (respond \<lparr>ok = False, status = 500\<rparr>)
       ''u'' \<lparr>accessToken = Some ''token'', signInCalls = 0\<rparr> =
     (Rejected Error, \<lparr>accessToken = Some ''token'', signInCalls = 0\<rparr>) \<and>
   authenticatedFetch (\<lambda>target header. Rejected TypeError)
       ''u'' \<lparr>accessToken = Some ''token'', signInCalls = 0\<rparr> =
     (Rejected TypeError, \<lparr>accessToken = Some ''token'', signInCalls = 0\<rparr>) \<and>
   authenticatedFetch (respond \<lparr>ok = True, status = 200\<rparr>)
       ''u'' \<lparr>accessToken = Some ''token'', signInCalls = 0\<rparr> =
     (Fulfilled (Some \<lparr>ok = True, status = 200\<rparr>), \<lparr>accessToken = Some ''token'', signInCalls = 0\<rparr>) \<and>
   authenticatedFetch (respond \<lparr>ok = True, status = 200\<rparr>)
       ''u'' \<lparr>accessToken = None, signInCalls = 0\<rparr> =
     (Fulfilled None, \<lparr>accessToken = None, signInCalls = 1\<rparr>) \<and>
   authenticatedFetch (respond \<lparr>ok = True, status = 200\<rparr>)
       ''u'' \<lparr>accessToken = Some [], signInCalls = 0\<rparr> =
     (Fulfilled None, \<lparr>accessToken = Some [], signInCalls = 1\<rparr>)"
  using
    authenticatedFetch_reauthenticates_on_401_only
      [of "\<lparr>accessToken = Some ''token'', signInCalls = 0\<rparr>" "''token''"
          "respond \<lparr>ok = False, status = 401\<rparr>" "''u''"
          "\<lparr>ok = False, status = 401\<rparr>" Error]
    authenticatedFetch_reauthenticates_on_401_only
      [of "\<lparr>accessToken = Some ''token'', signInCalls = 0\<rparr>" "''token''"
          "respond \<lparr>ok = False, status = 500\<rparr>" "''u''"
          "\<lparr>ok = False, status = 500\<rparr>" Error]
    authenticatedFetch_reauthenticates_on_401_only
      [of "\<lparr>accessToken = Some ''token'', signInCalls = 0\<rparr>" "''token''"
          "\<lambda>target header. Rejected TypeError" "''u''"
          "\<lparr>ok = False, status = 500\<rparr>" TypeError]
    authenticatedFetch_reauthenticates_on_401_only
      [of "\<lparr>accessToken = Some ''token'', signInCalls = 0\<rparr>" "''token''"
          "respond \<lparr>ok = True, status = 200\<rparr>" "''u''"
          "\<lparr>ok = True, status = 200\<rparr>" Error]
    authenticatedFetch_reauthenticates_on_401_only
      [of "\<lparr>accessToken = None, signInCalls = 0\<rparr>" "''token''"
          "respond \<lparr>ok = True, status = 200\<rparr>" "''u''"
          "\<lparr>ok = True, status = 200\<rparr>" Error]
    authenticatedFetch_reauthenticates_on_401_only
      [of "\<lparr>accessToken = Some [], signInCalls = 0\<rparr>" "''token''"
          "respond \<lparr>ok = True, status = 200\<rparr>" "''u''"
          "\<lparr>ok = True, status = 200\<rparr>" Error]
  by (simp add: signInToGoogle_def respond_def)

section \<open>The pool of web workers\<close>

text \<open>
  C6. When a \<open>loadImage\<close> call is routed to a web worker and the list of available
  workers is not empty, the call takes the last worker of the list and creates none (the
  count of created workers stays); only when the list is empty does it create a worker; and
  when the worker of the call answers, it is put back on the list.
\<close>

theorem pool_reuses_idle_worker:
  assumes "truthy (property (config s) ''useWebworkersToFetch'')"
    and "s' = snd (loadImage st parseDicom fetchDicomFile imgId s)"
    and "w = fst (last (posted s'))"
  shows "(availableWebworkers s \<noteq> [] \<longrightarrow>
            w = last (availableWebworkers s) \<and>
            availableWebworkers s' = butlast (availableWebworkers s) \<and>
            created s' = created s) \<and>
         (availableWebworkers s = [] \<longrightarrow> w = created s \<and> created s' = created s + 1) \<and>
         (created s' \<noteq> created s \<longrightarrow> availableWebworkers s = []) \<and>
         availableWebworkers (deliver w s') = availableWebworkers s' @ [w]"
proof (cases "availableWebworkers s = []")
  case True
  with assms show ?thesis
    by (simp add: loadImage_create deliver_def)
next
  case False
  with assms show ?thesis
    by (simp add: loadImage_reuse deliver_def)
qed

theorem pool_reuses_idle_worker_witness:
  "truthy (property (config released) ''useWebworkersToFetch'') \<and>
   availableWebworkers released = [0] \<and>
   fst (last (posted (snd second_load))) = 0 \<and>
   availableWebworkers (snd second_load) = [] \<and>
   created (snd second_load) = created released \<and>
   availableWebworkers (deliver 0 (snd second_load)) = [0] \<and>
   availableWebworkers worker_mode = [] \<and>
   created (snd first_load) = created worker_mode + 1"
  using
    pool_reuses_idle_worker
      [of released "snd second_load" "synthetic_store payload" "\<lambda>b. Inl Error"
          "\<lambda>target. Pending" "''dicomImageLoader://i/2''" 0]
    pool_reuses_idle_worker
      [of worker_mode "snd first_load" "synthetic_store payload" "\<lambda>b. Inl Error"
          "\<lambda>target. Pending" "''dicomImageLoader://i/1''" 0]
  by (simp add: released_flag worker_mode_flag released_fields worker_mode_fields
      first_load_fields second_load_fields second_load_def [symmetric] first_load_def [symmetric])

text \<open>
  C9 as stated fails: once the worker of the first call has answered, it is on the list of
  available workers and its \<open>onmessage\<close> slot still holds the handler of that call.
\<close>

theorem released_worker_keeps_handler:
  "availableWebworkers released = [0] \<and> onmessage released 0 = Some (Handler 0 0)"
  by (simp add: released_fields)

text \<open>
  C9, amended. A worker that is put back on the list of available workers keeps the
  \<open>onmessage\<close> handler of the call that used it; nothing is reset at that moment. The
  next \<open>loadImage\<close> call that takes the worker from the list replaces the handler by its
  own before it posts its request.
\<close>

theorem handler_replaced_on_reuse:
  "(onmessage s w = Some (Handler pid w') \<longrightarrow>
      onmessage (deliver w s) = onmessage s \<and>
      availableWebworkers (deliver w s) = availableWebworkers s @ [w']) \<and>
   (truthy (property (config s) ''useWebworkersToFetch'') \<and> availableWebworkers s \<noteq> [] \<longrightarrow>
      onmessage (snd (loadImage st parseDicom fetchDicomFile imgId s)) (last (availableWebworkers s)) =
        Some (Handler (length (promises s)) (last (availableWebworkers s))))"
  by (simp add: deliver_handler loadImage_reuse)

theorem handler_replaced_on_reuse_witness:
  "onmessage (snd first_load) 0 = Some (Handler 0 0) \<and>
   onmessage released 0 = Some (Handler 0 0) \<and>
   availableWebworkers released = [0] \<and>
   truthy (property (config released) ''useWebworkersToFetch'') \<and>
   onmessage (snd second_load) 0 = Some (Handler 1 0)"
  using
    handler_replaced_on_reuse
      [of "snd first_load" 0 0 0 "synthetic_store payload" "\<lambda>b. Inl Error"
          "\<lambda>target. Pending" "''dicomImageLoader://i/1''"]
    handler_replaced_on_reuse
      [of released 0 0 0 "synthetic_store payload" "\<lambda>b. Inl Error"
          "\<lambda>target. Pending" "''dicomImageLoader://i/2''"]
  by (simp add: worker_mode_flag released_fields first_load_fields second_load_def [symmetric]
      released_def [symmetric])

section \<open>Configuration\<close>

text \<open>
  C7 as stated fails: before any call of \<open>configure\<close> the fetch flag is \<open>false\<close>, and
  the configuration holds no flag for the decode step.
\<close>

theorem initial_flags:
  "property (config initial) ''useWebworkersToFetch'' = JBool False \<and>
   property (config initial) ''useWebworkersToParse'' = JUndefined"
  by (simp add: config_initial defaultConfig_def property_def)

text \<open>
  C7, amended. The configuration of the loader has one offload flag,
  \<open>useWebworkersToFetch\<close>, which is \<open>false\<close> (not offloaded) before any call of
  \<open>configure\<close>. When the flag is truthy, \<open>loadImage\<close> routes the fetch step through a
  web worker: it posts one \<open>fetchDicom\<close> request for the address to the worker it
  acquired and does not use \<open>api.fetchDicomFile\<close>. When the flag is falsy, it fetches and
  decodes inline, posts nothing and creates no worker. There is no flag for the decode step:
  \<open>loadImage\<close> depends on the configuration through the truthiness of
  \<open>useWebworkersToFetch\<close> alone.
\<close>

theorem single_offload_flag:
  "config initial = [''useWebworkersToFetch'' \<mapsto> JBool False] \<and>
   \<not> truthy (property (config initial) ''useWebworkersToFetch'') \<and>
   (truthy (property (config s) ''useWebworkersToFetch'') \<longrightarrow>
      posted (snd (loadImage st parseDicom fetchDicomFile imgId s)) =
        posted s @ [(fst (acquire s),
                     \<lparr>action = ''fetchDicom'',
                      url = replace_first ''dicomImageLoader'' ''https'' imgId\<rparr>)] \<and>
      promises (snd (loadImage st parseDicom fetchDicomFile imgId s)) = promises s @ [Pending]) \<and>
   (\<not> truthy (property (config s) ''useWebworkersToFetch'') \<longrightarrow>
      loadImage st parseDicom fetchDicomFile imgId s =
        (length (promises s),
         s\<lparr>promises := promises s @
              [inline_outcome st parseDicom
                 (fetchDicomFile (replace_first ''dicomImageLoader'' ''https'' imgId)) imgId]\<rparr>)) \<and>
   (truthy (property c ''useWebworkersToFetch'') =
      truthy (property (config s) ''useWebworkersToFetch'') \<longrightarrow>
    loadImage st parseDicom fetchDicomFile imgId (s\<lparr>config := c\<rparr>) =
      (fst (loadImage st parseDicom fetchDicomFile imgId s),
       (snd (loadImage st parseDicom fetchDicomFile imgId s))\<lparr>config := c\<rparr>))"
proof (intro conjI impI)
  show "config initial = [''useWebworkersToFetch'' \<mapsto> JBool False]"
    by (simp add: config_initial defaultConfig_def)
next
  show "\<not> truthy (property (config initial) ''useWebworkersToFetch'')"
    by (simp add: config_initial defaultConfig_def property_def)
next
  assume "truthy (property (config s) ''useWebworkersToFetch'')"
  then show "posted (snd (loadImage st parseDicom fetchDicomFile imgId s)) =
        posted s @ [(fst (acquire s),
                     \<lparr>action = ''fetchDicom'',
                      url = replace_first ''dicomImageLoader'' ''https'' imgId\<rparr>)]"
    by (cases "availableWebworkers s = []")
       (simp_all add: loadImage_create loadImage_reuse acquire_def)
next
  assume "truthy (property (config s) ''useWebworkersToFetch'')"
  then show "promises (snd (loadImage st parseDicom fetchDicomFile imgId s)) =
        promises s @ [Pending]"
    by (cases "availableWebworkers s = []") (simp_all add: loadImage_create loadImage_reuse)
next
  assume "\<not> truthy (property (config s) ''useWebworkersToFetch'')"
  then show "loadImage st parseDicom fetchDicomFile imgId s =
        (length (promises s),
         s\<lparr>promises := promises s @
              [inline_outcome st parseDicom
                 (fetchDicomFile (replace_first ''dicomImageLoader'' ''https'' imgId)) imgId]\<rparr>)"
    by (rule loadImage_inline)
next
  assume "truthy (property c ''useWebworkersToFetch'') =
      truthy (property (config s) ''useWebworkersToFetch'')"
  then show "loadImage st parseDicom fetchDicomFile imgId (s\<lparr>config := c\<rparr>) =
      (fst (loadImage st parseDicom fetchDicomFile imgId s),
       (snd (loadImage st parseDicom fetchDicomFile imgId s))\<lparr>config := c\<rparr>)"
    by (simp add: loadImage_def acquire_def Let_def)
qed

theorem single_offload_flag_witness:
  "truthy (property (config worker_mode) ''useWebworkersToFetch'') \<and>
   posted (snd first_load) = [(0, \<lparr>action = ''fetchDicom'', url = ''https://i/1''\<rparr>)] \<and>
   promises (snd first_load) = [Pending] \<and>
   \<not> truthy (property (config initial) ''useWebworkersToFetch'') \<and>
   promises (snd (loadImage (synthetic_store payload) (\<lambda>b. Inl Error) (\<lambda>target. Rejected Error)
       ''dicomImageLoader://i/1'' initial)) = [Rejected Error] \<and>
   posted (snd (loadImage (synthetic_store payload) (\<lambda>b. Inl Error) (\<lambda>target. Rejected Error)
       ''dicomImageLoader://i/1'' initial)) = [] \<and>
   created (snd (loadImage (synthetic_store payload) (\<lambda>b. Inl Error) (\<lambda>target. Rejected Error)
       ''dicomImageLoader://i/1'' initial)) = 0 \<and>
   truthy (property [''useWebworkersToFetch'' \<mapsto> JBool True, ''useWebworkersToParse'' \<mapsto> JBool False]
       ''useWebworkersToFetch'') =
     truthy (property (config worker_mode) ''useWebworkersToFetch'') \<and>
   loadImage (synthetic_store payload) (\<lambda>b. Inl Error) (\<lambda>target. Pending)
       ''dicomImageLoader://i/1''
       (worker_mode\<lparr>config := [''useWebworkersToFetch'' \<mapsto> JBool True,
                                ''useWebworkersToParse'' \<mapsto> JBool False]\<rparr>) =
     (fst first_load,
      (snd first_load)\<lparr>config := [''useWebworkersToFetch'' \<mapsto> JBool True,
                                  ''useWebworkersToParse'' \<mapsto> JBool False]\<rparr>)"
  using
    single_offload_flag
      [of worker_mode "synthetic_store payload" "\<lambda>b. Inl Error" "\<lambda>target. Pending"
          "''dicomImageLoader://i/1''"
          "[''useWebworkersToFetch'' \<mapsto> JBool True, ''useWebworkersToParse'' \<mapsto> JBool False]"]
    single_offload_flag
      [of initial "synthetic_store payload" "\<lambda>b. Inl Error" "\<lambda>target. Rejected Error"
          "''dicomImageLoader://i/1''" "config initial"]
    worker_mode_flag
  by (simp add: property_def first_load_def [symmetric] first_load_fields inline_outcome_def
      initial_def)

text \<open>
  C10. A call of \<open>configure\<close> sets every option of the defaults that its argument does
  not mention back to its default, whatever an earlier call had set:
  \<open>configure({useWebworkersToParse: true})\<close> makes \<open>useWebworkersToFetch\<close> \<open>false\<close> again
  after \<open>configure({useWebworkersToFetch: true})\<close> had made it \<open>true\<close>.
\<close>

theorem configure_resets_absent_options:
  "(defaultConfig k = Some v \<and> newConfig k = None \<longrightarrow>
      config (configure newConfig s) k = Some v) \<and>
   property (config (configure [''useWebworkersToFetch'' \<mapsto> JBool True] s))
       ''useWebworkersToFetch'' = JBool True \<and>
   property (config (configure [''useWebworkersToParse'' \<mapsto> JBool True]
                      (configure [''useWebworkersToFetch'' \<mapsto> JBool True] s)))
       ''useWebworkersToFetch'' = JBool False"
  by (simp add: config_configure map_add_def property_def defaultConfig_def)

theorem configure_resets_absent_options_witness:
  "defaultConfig ''useWebworkersToFetch'' = Some (JBool False) \<and>
   [''useWebworkersToParse'' \<mapsto> JBool True] ''useWebworkersToFetch'' = None \<and>
   property (config worker_mode) ''useWebworkersToFetch'' = JBool True \<and>
   config (configure [''useWebworkersToParse'' \<mapsto> JBool True] worker_mode)
       ''useWebworkersToFetch'' = Some (JBool False)"
  using
    configure_resets_absent_options
      [of "''useWebworkersToFetch''" "JBool False" "[''useWebworkersToParse'' \<mapsto> JBool True]"
          worker_mode]
  by (simp add: defaultConfig_def worker_mode_def config_configure property_def)

end
